theory Spec2Isabelle
  imports Complex_Main
begin

section \<open>YorkUChats server: the write-admission pipeline of \<^verbatim>\<open>src/server/server.js\<close>\<close>

text \<open>
  The server is an Express application over a MongoDB collection of courses, a
  collection of reports and an in-memory e-mail verifier. Every route handler is
  modelled as a function from the store and the request to a response and the new
  store. Request bodies are JSON objects whose fields are strings or absent
  (\<open>string \<rightharpoonup> string\<close>); a field is truthy, in JavaScript's sense, when it is
  present and not the empty string. The one field read as any JSON value is the
  username of link creation: the handler calls a string method on it before any test
  and outside its \<^verbatim>\<open>try\<close> block, so what is not a string there ends the handler
  without an answer. Calls to the store, to the captcha provider and to the mail
  provider are taken to return (the \<^verbatim>\<open>catch\<close> blocks that answer 500 on a thrown
  exception are outside the model).
\<close>

subsection \<open>Strings\<close>

definition upper_char :: "char \<Rightarrow> char" where
  "upper_char c = (let n = (of_char c :: nat) in if 97 \<le> n \<and> n \<le> 122 then char_of (n - 32) else c)"

text \<open>\<^verbatim>\<open>String.prototype.toUpperCase\<close>, on ASCII.\<close>

definition toUpperCase :: "string \<Rightarrow> string" where
  "toUpperCase s = map upper_char s"

definition is_space :: "char \<Rightarrow> bool" where
  "is_space c = ((of_char c :: nat) \<in> {9, 10, 11, 12, 13, 32})"

text \<open>\<^verbatim>\<open>String.prototype.trim\<close>, on ASCII white space.\<close>

definition trim :: "string \<Rightarrow> string" where
  "trim s = rev (dropWhile is_space (rev (dropWhile is_space s)))"

text \<open>\<^verbatim>\<open>s.replaceAll("@", "")\<close>.\<close>

definition strip_at :: "string \<Rightarrow> string" where
  "strip_at s = filter (\<lambda>c. c \<noteq> CHR ''@'') s"

text \<open>The route parameter \<^verbatim>\<open>req.params.code.trim().toUpperCase()\<close>.\<close>

definition param_code :: "string \<Rightarrow> string" where
  "param_code p = toUpperCase (trim p)"

subsection \<open>Requests and responses\<close>

type_synonym body = "string \<rightharpoonup> string"

text \<open>JavaScript truthiness of a body field: \<^verbatim>\<open>undefined\<close> and \<^verbatim>\<open>""\<close> are falsy.\<close>

definition truthy :: "string option \<Rightarrow> bool" where
  "truthy v = (case v of None \<Rightarrow> False | Some s \<Rightarrow> s \<noteq> [])"

text \<open>A field inside a template literal: \<^verbatim>\<open>`${undefined}`\<close> is \<^verbatim>\<open>"undefined"\<close>.\<close>

definition template :: "string option \<Rightarrow> string" where
  "template v = (case v of None \<Rightarrow> ''undefined'' | Some s \<Rightarrow> s)"

datatype payload = Echo body | ErrorMsg string

record response =
  status :: nat
  headers :: "(string \<times> string) list"
  payload :: payload

definition CREATED :: nat where [simp]: "CREATED = 201"
definition BAD_REQUEST :: nat where [simp]: "BAD_REQUEST = 400"
definition UNAUTHORIZED :: nat where [simp]: "UNAUTHORIZED = 401"
definition GONE :: nat where [simp]: "GONE = 410"
definition NOT_FOUND :: nat where [simp]: "NOT_FOUND = 404"
definition CONFLICT :: nat where [simp]: "CONFLICT = 409"
definition SERVER_ERROR :: nat where [simp]: "SERVER_ERROR = 500"
definition UNPROCESSABLE :: nat where [simp]: "UNPROCESSABLE = 422"

text \<open>\<^verbatim>\<open>res.status(c).json({error: msg})\<close> and \<^verbatim>\<open>res.status(CREATED).json(req.body)\<close>.\<close>

definition json_error :: "nat \<Rightarrow> string \<Rightarrow> response" where
  "json_error c msg = \<lparr>status = c, headers = [], payload = ErrorMsg msg\<rparr>"

definition created :: "body \<Rightarrow> response" where
  "created b = \<lparr>status = CREATED, headers = [], payload = Echo b\<rparr>"

definition bad_request :: response where
  "bad_request = json_error BAD_REQUEST ''Bad request. Check parameters.''"

subsection \<open>The documents\<close>

text \<open>
  Modelled from the spec: the mongoose schemas (\<^verbatim>\<open>db/models/course\<close>,
  \<^verbatim>\<open>db/models/report\<close>) are not among the sources. A course has a code, a name,
  faculty, subject, number, credits and an ordered list of sections; a section has a
  name and an ordered list of links; a link has a type, a url, a click counter and
  two timestamps; a report has a link reference, a reason, the submitter's network
  origin and a timestamp.
\<close>

record link_doc =
  l_type :: string
  l_url :: string
  l_clicks :: nat
  l_createdAt :: int
  l_updatedAt :: int

record section_doc =
  s_name :: string
  s_links :: "link_doc list"

record course_doc =
  c_code :: string
  c_name :: string
  c_faculty :: string
  c_subject :: string
  c_number :: string
  c_credits :: string
  c_sections :: "section_doc list"

record report_doc =
  r_link_id :: "string option"
  r_reason :: "string option"
  r_ip :: "string option"
  r_createdAt :: int

record vrecord =
  v_code :: string
  v_issued :: int

text \<open>
  The state the handlers read and write: the two collections, the verifier's
  in-memory records (keyed by the normalised username) and the messages handed to
  the mail provider (recipient, code).
\<close>

record state =
  courses :: "course_doc list"
  reports :: "report_doc list"
  verifier :: "string \<rightharpoonup> vrecord"
  outbox :: "(string \<times> string) list"

text \<open>
  What a handler gets from outside the process: the captcha provider's answer to a
  token (\<^verbatim>\<open>verifyReCaptcha\<close>), the clock in milliseconds (\<^verbatim>\<open>new Date()\<close>), the
  code the verifier draws next, and the mail provider's status code for a message
  (\<^verbatim>\<open>sendResult?.statusCode\<close>, \<open>None\<close> when it is undefined).
\<close>

record env =
  captcha :: "string \<Rightarrow> bool"
  now :: int
  fresh_code :: string
  mailer :: "string \<Rightarrow> string \<Rightarrow> nat option"

text \<open>\<^verbatim>\<open>req.body.captcha && await verifyReCaptcha(req.body.captcha)\<close>.\<close>

definition captcha_passes :: "env \<Rightarrow> body \<Rightarrow> bool" where
  "captcha_passes e b = (case b ''captcha'' of None \<Rightarrow> False | Some t \<Rightarrow> t \<noteq> [] \<and> captcha e t)"

subsection \<open>The store's operations\<close>

text \<open>
  \<^verbatim>\<open>Model.findOne(filter)\<close> returns the first document that matches, or null;
  \<^verbatim>\<open>Model.findOneAndUpdate(filter, update)\<close> updates the first document that matches
  and returns it, or returns null and changes nothing (no upsert is asked for).
\<close>

definition findOne :: "('d \<Rightarrow> bool) \<Rightarrow> 'd list \<Rightarrow> 'd option" where
  "findOne p ds = List.find p ds"

fun update_first :: "('d \<Rightarrow> bool) \<Rightarrow> ('d \<Rightarrow> 'd) \<Rightarrow> 'd list \<Rightarrow> 'd list" where
  "update_first p f [] = []"
| "update_first p f (d # ds) = (if p d then f d # ds else d # update_first p f ds)"

definition findOneAndUpdate :: "('d \<Rightarrow> bool) \<Rightarrow> ('d \<Rightarrow> 'd) \<Rightarrow> 'd list \<Rightarrow> 'd option \<times> 'd list" where
  "findOneAndUpdate p f ds = (findOne p ds, update_first p f ds)"

text \<open>
  The query conditions. A dotted path through an array holds when some element
  satisfies it; two dotted conditions on the same array are tested independently, so
  \<^verbatim>\<open>{"sections.name": n, "sections.links.url": u}\<close> asks for some section named \<open>n\<close>
  and for some section, not necessarily the same one, with a link to \<open>u\<close>.
\<close>

definition sections_name :: "string \<Rightarrow> course_doc \<Rightarrow> bool" where
  "sections_name n c = (\<exists>sec \<in> set (c_sections c). s_name sec = n)"

definition links_url :: "string \<Rightarrow> section_doc \<Rightarrow> bool" where
  "links_url u sec = (\<exists>l \<in> set (s_links sec). l_url l = u)"

definition sections_links_url :: "string \<Rightarrow> course_doc \<Rightarrow> bool" where
  "sections_links_url u c = (\<exists>sec \<in> set (c_sections c). links_url u sec)"

text \<open>\<^verbatim>\<open>{$push: {sections: section}}\<close>.\<close>

definition push_section :: "section_doc \<Rightarrow> course_doc \<Rightarrow> course_doc" where
  "push_section sec c = c\<lparr>c_sections := c_sections c @ [sec]\<rparr>"

text \<open>
  \<^verbatim>\<open>{$push: {"sections.$.links": link}}\<close> under the condition
  \<^verbatim>\<open>"sections.name": n\<close>: the positional \<^verbatim>\<open>$\<close> is the first section named \<open>n\<close>.
\<close>

definition push_link :: "string \<Rightarrow> link_doc \<Rightarrow> course_doc \<Rightarrow> course_doc" where
  "push_link n l c =
     c\<lparr>c_sections := update_first (\<lambda>sec. s_name sec = n)
                        (\<lambda>sec. sec\<lparr>s_links := s_links sec @ [l]\<rparr>) (c_sections c)\<rparr>"

text \<open>
  \<^verbatim>\<open>{$inc: {"sections.$[sec].links.$[link].clicks": 1}}\<close> with
  \<^verbatim>\<open>arrayFilters: [{"sec.links.url": u}, {"link.url": u}]\<close>: in every section that has
  a link to \<open>u\<close>, every link to \<open>u\<close> is incremented.
\<close>

definition inc_link :: "string \<Rightarrow> link_doc \<Rightarrow> link_doc" where
  "inc_link u l = (if l_url l = u then l\<lparr>l_clicks := l_clicks l + 1\<rparr> else l)"

definition inc_section :: "string \<Rightarrow> section_doc \<Rightarrow> section_doc" where
  "inc_section u sec = (if links_url u sec then sec\<lparr>s_links := map (inc_link u) (s_links sec)\<rparr> else sec)"

definition inc_clicks :: "string \<Rightarrow> course_doc \<Rightarrow> course_doc" where
  "inc_clicks u c = c\<lparr>c_sections := map (inc_section u) (c_sections c)\<rparr>"

subsection \<open>The verifier\<close>

text \<open>
  Modelled from the spec: the class \<^verbatim>\<open>Verifier\<close> (\<^verbatim>\<open>mod/verifier\<close>) is not among the
  sources. Per identity it keeps at most one record, an issued code and its issuance
  time; a record is live for 15 minutes. \<open>hasCode\<close> is the spec's \<open>hasLiveCode\<close>,
  \<open>checkCodeTime\<close> its \<open>issuanceAge\<close> (in minutes, absent when there is no live
  record), \<open>createCode\<close> its \<open>issueCode\<close> (it overwrites the record and stamps the
  time), \<open>checkCode\<close> its \<open>verifyCode\<close> (a comparison that leaves the record in
  place) and \<open>sendCode\<close> its \<open>deliver\<close>.
\<close>

definition TTL_MS :: int where
  "TTL_MS = 15 * 60 * 1000"

definition live_record :: "(string \<rightharpoonup> vrecord) \<Rightarrow> int \<Rightarrow> string \<Rightarrow> vrecord option" where
  "live_record v t u =
     (case v u of None \<Rightarrow> None
      | Some r \<Rightarrow> if t - v_issued r < TTL_MS then Some r else None)"

definition hasCode :: "(string \<rightharpoonup> vrecord) \<Rightarrow> int \<Rightarrow> string \<Rightarrow> bool" where
  "hasCode v t u = (case live_record v t u of None \<Rightarrow> False | Some r \<Rightarrow> True)"

definition checkCode :: "(string \<rightharpoonup> vrecord) \<Rightarrow> int \<Rightarrow> string \<Rightarrow> string \<Rightarrow> bool" where
  "checkCode v t u c = (case live_record v t u of None \<Rightarrow> False | Some r \<Rightarrow> v_code r = c)"

definition checkCodeTime :: "(string \<rightharpoonup> vrecord) \<Rightarrow> int \<Rightarrow> string \<Rightarrow> rat option" where
  "checkCodeTime v t u =
     (case live_record v t u of None \<Rightarrow> None
      | Some r \<Rightarrow> Some (of_int (t - v_issued r) / 60000))"

definition createCode :: "(string \<rightharpoonup> vrecord) \<Rightarrow> int \<Rightarrow> string \<Rightarrow> string \<Rightarrow> (string \<rightharpoonup> vrecord)" where
  "createCode v t c u = v(u \<mapsto> \<lparr>v_code = c, v_issued = t\<rparr>)"

subsection \<open>POST /courses\<close>

text \<open>
  Modelled from the spec: \<^verbatim>\<open>Course.create(req.body)\<close> stores a course whose code is
  the upper-case, trimmed concatenation of faculty, subject, number and credits, with
  no sections. A string field is read from the body only after the handler has found
  it truthy.
\<close>

definition str :: "string option \<Rightarrow> string" where
  "str v = (case v of None \<Rightarrow> [] | Some s \<Rightarrow> s)"

definition derived_code :: "body \<Rightarrow> string" where
  "derived_code b =
     toUpperCase (trim (str (b ''faculty'') @ str (b ''subject'') @ str (b ''number'') @ str (b ''credits'')))"

definition new_Course :: "body \<Rightarrow> course_doc" where
  "new_Course b =
     \<lparr>c_code = derived_code b, c_name = str (b ''name''), c_faculty = str (b ''faculty''),
      c_subject = str (b ''subject''), c_number = str (b ''number''),
      c_credits = str (b ''credits''), c_sections = []\<rparr>"

text \<open>The key the handler looks up: the template literal, as it is sent.\<close>

definition lookup_code :: "body \<Rightarrow> string" where
  "lookup_code b =
     template (b ''faculty'') @ template (b ''subject'') @ template (b ''number'') @ template (b ''credits'')"

definition post_courses :: "env \<Rightarrow> state \<Rightarrow> body \<Rightarrow> response \<times> state" where
  "post_courses e s b =
     (if \<not> (truthy (b ''name'') \<and> truthy (b ''subject'') \<and> truthy (b ''number'') \<and>
             truthy (b ''faculty'') \<and> truthy (b ''credits'') \<and> captcha_passes e b)
      then (bad_request, s)
      else (case findOne (\<lambda>c. c_code c = lookup_code b) (courses s) of
              Some c \<Rightarrow> (json_error CONFLICT ''Course already exists.'', s)
            | None \<Rightarrow> (created b, s\<lparr>courses := courses s @ [new_Course b]\<rparr>)))"

subsection \<open>POST /courses/:code/sections\<close>

text \<open>\<^verbatim>\<open>new Section(req.body)\<close>: the name of the body, no links.\<close>

definition new_Section :: "body \<Rightarrow> section_doc" where
  "new_Section b = \<lparr>s_name = str (b ''name''), s_links = []\<rparr>"

text \<open>
  The handler makes two calls to the store, each awaited: the lookup that answers 409,
  and the push that answers 404 or 201. They are modelled as two steps, so that the
  steps of concurrent requests can be interleaved below; \<open>post_sections\<close> is the
  handler run without interruption.
\<close>

definition section_check :: "env \<Rightarrow> state \<Rightarrow> string \<Rightarrow> body \<Rightarrow> response option" where
  "section_check e s p b =
     (let code = param_code p in
      if \<not> (code \<noteq> [] \<and> truthy (b ''name'') \<and> captcha_passes e b) then Some bad_request
      else (case findOne (\<lambda>c. c_code c = code \<and> sections_name (str (b ''name'')) c) (courses s) of
              Some c \<Rightarrow> Some (json_error CONFLICT ''Section already exists.'')
            | None \<Rightarrow> None))"

definition section_push :: "state \<Rightarrow> string \<Rightarrow> body \<Rightarrow> response \<times> state" where
  "section_push s p b =
     (let code = param_code p;
          (found, cs) = findOneAndUpdate (\<lambda>c. c_code c = code) (push_section (new_Section b)) (courses s);
          s' = s\<lparr>courses := cs\<rparr>
      in case found of
           None \<Rightarrow> (json_error NOT_FOUND ''Course not found.'', s')
         | Some c \<Rightarrow> (created b, s'))"

definition post_sections :: "env \<Rightarrow> state \<Rightarrow> string \<Rightarrow> body \<Rightarrow> response \<times> state" where
  "post_sections e s p b =
     (case section_check e s p b of Some r \<Rightarrow> (r, s) | None \<Rightarrow> section_push s p b)"

subsection \<open>POST /courses/:code/sections/:section/link\<close>

text \<open>
  Modelled from the spec: \<^verbatim>\<open>new Link({...req.body, createdAt, updatedAt})\<close> keeps the
  type and the url of the body, starts the click counter at 0 and stamps both times.
\<close>

definition new_Link :: "env \<Rightarrow> body \<Rightarrow> link_doc" where
  "new_Link e b =
     \<lparr>l_type = str (b ''type''), l_url = str (b ''url''), l_clicks = 0,
      l_createdAt = now e, l_updatedAt = now e\<rparr>"

text \<open>A JSON value, as \<^verbatim>\<open>bodyParser.json\<close> hands it to a handler, and its truthiness.\<close>

datatype json =
  JString string | JNumber rat | JBool bool | JNull | JArray "json list" | JObject "(string \<times> json) list"

definition js_truthy :: "json \<Rightarrow> bool" where
  "js_truthy v =
     (case v of JString s \<Rightarrow> s \<noteq> [] | JNumber n \<Rightarrow> n \<noteq> 0 | JBool b \<Rightarrow> b | JNull \<Rightarrow> False
      | JArray vs \<Rightarrow> True | JObject kvs \<Rightarrow> True)"

text \<open>
  \<^verbatim>\<open>(req.body.username || "").replaceAll("@", "")\<close>, the handler's third line, on
  whatever the body holds under \<^verbatim>\<open>username\<close>. A falsy value gives way to the empty
  string; a truthy string is stripped of its \<^verbatim>\<open>@\<close>; any other truthy value (a
  number, \<^verbatim>\<open>true\<close>, an array, an object) has no \<^verbatim>\<open>replaceAll\<close> and the call throws a
  TypeError (\<open>None\<close>).
\<close>

definition username_replaceAll :: "json option \<Rightarrow> string option" where
  "username_replaceAll u =
     (case u of
        None \<Rightarrow> Some (strip_at [])
      | Some v \<Rightarrow>
          if \<not> js_truthy v then Some (strip_at [])
          else (case v of JString s \<Rightarrow> Some (strip_at s) | JNumber n \<Rightarrow> None | JBool b \<Rightarrow> None
                | JNull \<Rightarrow> None | JArray vs \<Rightarrow> None | JObject kvs \<Rightarrow> None))"

text \<open>
  The same line on a body whose username is a string or absent, where the call cannot
  throw.
\<close>

definition link_username :: "body \<Rightarrow> string" where
  "link_username b =
     (case username_replaceAll (map_option JString (b ''username'')) of Some name \<Rightarrow> name | None \<Rightarrow> [])"

text \<open>\<^verbatim>\<open>req.body.code || 0\<close>: the code of the body, or the number 0 (written \<open>''0''\<close>).\<close>

definition supplied_code :: "body \<Rightarrow> string" where
  "supplied_code b = (if truthy (b ''code'') then str (b ''code'') else ''0'')"

text \<open>
  \<^verbatim>\<open>code && section && req.body.type && req.body.url && req.body.terms &&
  req.body.username && req.body.code\<close>.
\<close>

definition link_fields_present :: "string \<Rightarrow> string \<Rightarrow> body \<Rightarrow> bool" where
  "link_fields_present p sec b =
     (param_code p \<noteq> [] \<and> sec \<noteq> [] \<and> truthy (b ''type'') \<and> truthy (b ''url'') \<and>
      truthy (b ''terms'') \<and> truthy (b ''username'') \<and> truthy (b ''code''))"

text \<open>The checks before the store is touched: 400, then 410, then 401.\<close>

definition link_gate :: "env \<Rightarrow> state \<Rightarrow> string \<Rightarrow> string \<Rightarrow> body \<Rightarrow> response option" where
  "link_gate e s p sec b =
     (let username = link_username b in
      if \<not> link_fields_present p sec b
      then Some bad_request
      else if \<not> hasCode (verifier s) (now e) username
      then Some (json_error GONE ''Email code expired. Refresh the page.'')
      else if \<not> checkCode (verifier s) (now e) username (supplied_code b)
      then Some (json_error UNAUTHORIZED ''Email code does not match records. Unauthorized!'')
      else None)"

text \<open>The two calls to the store: the lookup that answers 409, the push that answers 404 or 201.\<close>

definition link_store :: "env \<Rightarrow> state \<Rightarrow> string \<Rightarrow> string \<Rightarrow> body \<Rightarrow> response \<times> state" where
  "link_store e s p sec b =
     (let code = param_code p; url = str (b ''url'') in
      case findOne (\<lambda>c. c_code c = code \<and> sections_name sec c \<and> sections_links_url url c) (courses s) of
        Some c \<Rightarrow> (json_error CONFLICT ''Link already exists.'', s)
      | None \<Rightarrow>
         (let (found, cs) = findOneAndUpdate (\<lambda>c. c_code c = code \<and> sections_name sec c)
                               (push_link sec (new_Link e b)) (courses s);
              s' = s\<lparr>courses := cs\<rparr>
          in case found of
               None \<Rightarrow> (json_error NOT_FOUND ''Course or section not found.'', s')
             | Some c \<Rightarrow> (created b, s')))"

text \<open>The handler on a body whose fields, the username too, are strings or absent.\<close>

definition post_link :: "env \<Rightarrow> state \<Rightarrow> string \<Rightarrow> string \<Rightarrow> body \<Rightarrow> response \<times> state" where
  "post_link e s p sec b =
     (case link_gate e s p sec b of Some r \<Rightarrow> (r, s) | None \<Rightarrow> link_store e s p sec b)"

text \<open>
  The username as the tests after the third line read it: a string, or nothing truthy
  (\<^verbatim>\<open>0\<close>, \<^verbatim>\<open>false\<close> and \<^verbatim>\<open>null\<close> fail the test \<^verbatim>\<open>req.body.username\<close> as an
  absent field does).
\<close>

definition username_field :: "json option \<Rightarrow> string option" where
  "username_field u =
     (case u of
        None \<Rightarrow> None
      | Some v \<Rightarrow> (case v of JString s \<Rightarrow> Some s | JNumber n \<Rightarrow> None | JBool b \<Rightarrow> None
                   | JNull \<Rightarrow> None | JArray vs \<Rightarrow> None | JObject kvs \<Rightarrow> None))"

text \<open>
  The handler on a request whose username \<open>u\<close> is any JSON value or absent; \<open>b\<close> holds
  the other fields of the body. The third line runs first, outside the \<^verbatim>\<open>try\<close> block:
  when it throws, the promise of the handler is rejected, no answer is sent (\<open>None\<close>)
  and the store is as it was. Otherwise the handler goes on as \<open>post_link\<close>.
\<close>

definition post_link_request :: "env \<Rightarrow> state \<Rightarrow> string \<Rightarrow> string \<Rightarrow> json option \<Rightarrow> body \<Rightarrow> response option \<times> state" where
  "post_link_request e s p sec u b =
     (case username_replaceAll u of
        None \<Rightarrow> (None, s)
      | Some username \<Rightarrow>
          (let (r, s') = post_link e s p sec (b(''username'' := username_field u)) in (Some r, s')))"

subsection \<open>POST /courses/:code/sections/:section/link/click\<close>

definition post_link_click :: "state \<Rightarrow> string \<Rightarrow> string \<Rightarrow> body \<Rightarrow> response \<times> state" where
  "post_link_click s p sec b =
     (let urlToUpdate = b ''url''; code = param_code p in
      if \<not> (truthy urlToUpdate \<and> code \<noteq> [] \<and> sec \<noteq> []) then (bad_request, s)
      else
        (let u = str urlToUpdate;
             (found, cs) = findOneAndUpdate
                              (\<lambda>c. c_code c = code \<and> sections_name sec c \<and> sections_links_url u c)
                              (inc_clicks u) (courses s)
         in (created b, s\<lparr>courses := cs\<rparr>)))"

subsection \<open>POST /verify/create\<close>

text \<open>\<^verbatim>\<open>codeTime && codeTime < 15\<close>: a number is truthy when it is not 0.\<close>

definition within_cooldown :: "rat option \<Rightarrow> bool" where
  "within_cooldown codeTime = (case codeTime of None \<Rightarrow> False | Some a \<Rightarrow> a \<noteq> 0 \<and> a < 15)"

definition post_verify_create :: "env \<Rightarrow> state \<Rightarrow> body \<Rightarrow> response \<times> state" where
  "post_verify_create e s b =
     (if \<not> (truthy (b ''username'') \<and> captcha_passes e b) then (bad_request, s)
      else
        (let username = strip_at (str (b ''username''));
             codeTime = checkCodeTime (verifier s) (now e) username
         in if within_cooldown codeTime then (created b, s)
            else
              (let newCode = fresh_code e;
                   s1 = s\<lparr>verifier := createCode (verifier s) (now e) newCode username\<rparr>;
                   sendResult = mailer e username newCode;
                   s2 = s1\<lparr>outbox := outbox s1 @ [(username, newCode)]\<rparr>
               in if sendResult = Some 422 then (json_error UNPROCESSABLE ''Invalid e-mail.'', s2)
                  else if sendResult \<noteq> Some 202
                  then (json_error SERVER_ERROR ''Failed to send e-mail. Contact project developer(s).'', s2)
                  else (created b, s2))))"

subsection \<open>POST /report\<close>

text \<open>
  \<^verbatim>\<open>Report.create({...req.body, ip: req.connection.remoteAddress})\<close>: the object
  handed to the store is the body with its \<^verbatim>\<open>ip\<close> key overwritten by the
  connection's remote address (\<open>None\<close> when the socket has none).
\<close>

definition report_object :: "body \<Rightarrow> string option \<Rightarrow> body" where
  "report_object b remoteAddress = b(''ip'' := remoteAddress)"

definition new_Report :: "env \<Rightarrow> body \<Rightarrow> report_doc" where
  "new_Report e d =
     \<lparr>r_link_id = d ''link_id'', r_reason = d ''reason'', r_ip = d ''ip'', r_createdAt = now e\<rparr>"

definition post_report :: "env \<Rightarrow> state \<Rightarrow> string option \<Rightarrow> body \<Rightarrow> response \<times> state" where
  "post_report e s remoteAddress b =
     (if \<not> (truthy (b ''link_id'') \<and> truthy (b ''reason'') \<and> captcha_passes e b) then (bad_request, s)
      else (created b, s\<lparr>reports := reports s @ [new_Report e (report_object b remoteAddress)]\<rparr>))"

subsection \<open>Rate limiters\<close>

text \<open>
  \<^verbatim>\<open>rateLimit({windowMs, max, handler})\<close> of express-rate-limit: a middleware with a
  counter of its own per key (the caller's address unless a \<^verbatim>\<open>keyGenerator\<close> is
  given). A request counts one hit in the key's current window; a window opens at the
  key's first hit and closes \<^verbatim>\<open>windowMs\<close> later. The request goes on to the next
  middleware while the count is at most \<^verbatim>\<open>max\<close>; otherwise \<^verbatim>\<open>handler\<close> answers.
\<close>

record limiter =
  windowMs :: int
  max_hits :: nat
  keyGenerator :: "string \<Rightarrow> string"

type_synonym hits = "string \<rightharpoonup> nat \<times> int"

definition hit :: "limiter \<Rightarrow> hits \<Rightarrow> int \<Rightarrow> string \<Rightarrow> bool \<times> hits" where
  "hit L h t ip =
     (let k = keyGenerator L ip;
          (n, reset) = (case h k of
                          None \<Rightarrow> (1, t + windowMs L)
                        | Some (n, reset) \<Rightarrow> if t < reset then (n + 1, reset) else (1, t + windowMs L))
      in (n \<le> max_hits L, h(k \<mapsto> (n, reset))))"

definition newLinkLimiter :: limiter where
  "newLinkLimiter = \<lparr>windowMs = 60 * 1000, max_hits = 30, keyGenerator = (\<lambda>ip. ip)\<rparr>"

definition linkClicksLimiter :: limiter where
  "linkClicksLimiter = \<lparr>windowMs = 60 * 1000, max_hits = 3, keyGenerator = (\<lambda>ip. ip)\<rparr>"

definition linkClicksLongLimiter :: limiter where
  "linkClicksLongLimiter = \<lparr>windowMs = 60 * 60 * 1000, max_hits = 10, keyGenerator = (\<lambda>ip. ip)\<rparr>"

definition limiterHandler :: response where
  "limiterHandler =
     \<lparr>status = 429, headers = [(''Access-Control-Expose-Headers'', ''X-RateLimit-Reset'')],
      payload = ErrorMsg ''Rate limit reached. Sorry blud.''\<rparr>"

text \<open>
  The route \<^verbatim>\<open>app.post("/courses/:code/sections/:section/link/click", newLinkLimiter, ...)\<close>:
  the one limiter the route names, then the handler. The state of the route is the
  limiter's counters and the store.
\<close>

definition click_route :: "hits \<times> state \<Rightarrow> int \<Rightarrow> string \<Rightarrow> string \<Rightarrow> string \<Rightarrow> body \<Rightarrow> response \<times> hits \<times> state" where
  "click_route hs t ip p sec b =
     (let (ok, h') = hit newLinkLimiter (fst hs) t ip in
      if ok then (let (r, s') = post_link_click (snd hs) p sec b in (r, h', s'))
      else (limiterHandler, h', snd hs))"

text \<open>Click requests (time, caller) for one link, served in order; the statuses answered.\<close>

fun click_requests :: "hits \<times> state \<Rightarrow> string \<Rightarrow> string \<Rightarrow> body \<Rightarrow> (int \<times> string) list \<Rightarrow> nat list" where
  "click_requests hs p sec b [] = []"
| "click_requests hs p sec b ((t, ip) # rs) =
     (let (r, h', s') = click_route hs t ip p sec b in status r # click_requests (h', s') p sec b rs)"

subsection \<open>Section creation under concurrent requests\<close>

text \<open>
  A request in flight has not yet made its lookup (\<open>Waiting\<close>), has made it and found
  no conflict (\<open>Checked\<close>), or has answered (\<open>Done\<close>). One step of a request is one
  awaited call to the store; the store runs each call atomically. A schedule names,
  step by step, the request that moves next.
\<close>

datatype progress = Waiting | Checked | Done response

definition step_request :: "env \<Rightarrow> string \<times> body \<Rightarrow> state \<times> progress \<Rightarrow> state \<times> progress" where
  "step_request e req cfg =
     (case snd cfg of
        Waiting \<Rightarrow> (case section_check e (fst cfg) (fst req) (snd req) of
                      Some r \<Rightarrow> (fst cfg, Done r)
                    | None \<Rightarrow> (fst cfg, Checked))
      | Checked \<Rightarrow> (let (r, s') = section_push (fst cfg) (fst req) (snd req) in (s', Done r))
      | Done r \<Rightarrow> cfg)"

fun run_schedule :: "env \<Rightarrow> (string \<times> body) list \<Rightarrow> nat list \<Rightarrow> state \<times> progress list \<Rightarrow> state \<times> progress list" where
  "run_schedule e reqs [] cfg = cfg"
| "run_schedule e reqs (i # sched) (s, ps) =
     (if i < length ps \<and> i < length reqs
      then (let (s', pr) = step_request e (reqs ! i) (s, ps ! i) in run_schedule e reqs sched (s', ps[i := pr]))
      else run_schedule e reqs sched (s, ps))"

definition answered :: "progress \<Rightarrow> nat option" where
  "answered pr = (case pr of Done r \<Rightarrow> Some (status r) | Waiting \<Rightarrow> None | Checked \<Rightarrow> None)"

text \<open>The same request sent \<open>n\<close> times, each handled to its end before the next starts.\<close>

fun sections_in_turn :: "env \<Rightarrow> string \<Rightarrow> body \<Rightarrow> nat \<Rightarrow> state \<Rightarrow> nat list \<times> state" where
  "sections_in_turn e p b 0 s = ([], s)"
| "sections_in_turn e p b (Suc n) s =
     (let (r, s') = post_sections e s p b; (rs, s'') = sections_in_turn e p b n s' in (status r # rs, s''))"

text \<open>No course holds two sections of the same name.\<close>

definition section_names_distinct :: "state \<Rightarrow> bool" where
  "section_names_distinct s = list_all (\<lambda>c. distinct (map s_name (c_sections c))) (courses s)"

subsection \<open>A store and requests to run the handlers on\<close>

definition demo_env :: env where
  "demo_env = \<lparr>captcha = (\<lambda>t. t = ''ok''), now = 1000, fresh_code = ''222222'', mailer = (\<lambda>u c. Some 202)\<rparr>"

definition demo_link :: link_doc where
  "demo_link = \<lparr>l_type = ''whatsapp'', l_url = ''https://chat/1'', l_clicks = 0, l_createdAt = 0, l_updatedAt = 0\<rparr>"

definition demo_course :: "section_doc list \<Rightarrow> course_doc" where
  "demo_course secs =
     \<lparr>c_code = ''LAEECS10013'', c_name = ''Intro'', c_faculty = ''LA'', c_subject = ''EECS'',
      c_number = ''1001'', c_credits = ''3'', c_sections = secs\<rparr>"

text \<open>One course; a code for \<open>alice\<close> issued at time 1000.\<close>

definition demo_state :: "section_doc list \<Rightarrow> state" where
  "demo_state secs =
     \<lparr>courses = [demo_course secs], reports = [],
      verifier = [''alice'' \<mapsto> \<lparr>v_code = ''111111'', v_issued = 1000\<rparr>], outbox = []\<rparr>"

text \<open>Section A without links, section B with one link.\<close>

definition two_sections :: "section_doc list" where
  "two_sections = [\<lparr>s_name = ''A'', s_links = []\<rparr>, \<lparr>s_name = ''B'', s_links = [demo_link]\<rparr>]"

definition demo_section_body :: body where
  "demo_section_body = [''name'' \<mapsto> ''A'', ''captcha'' \<mapsto> ''ok'']"

definition demo_link_body :: body where
  "demo_link_body =
     [''type'' \<mapsto> ''whatsapp'', ''url'' \<mapsto> ''https://chat/1'', ''terms'' \<mapsto> ''yes'',
      ''username'' \<mapsto> ''alice'', ''code'' \<mapsto> ''111111'']"

definition demo_course_body :: body where
  "demo_course_body =
     [''name'' \<mapsto> ''Intro'', ''faculty'' \<mapsto> ''la'', ''subject'' \<mapsto> ''eecs'', ''number'' \<mapsto> ''1001'',
      ''credits'' \<mapsto> ''3'', ''captcha'' \<mapsto> ''ok'']"

definition demo_report_body :: body where
  "demo_report_body = [''link_id'' \<mapsto> ''64a1'', ''reason'' \<mapsto> ''spam'', ''captcha'' \<mapsto> ''ok'']"

text \<open>Sections A and B, each with a link to the same url.\<close>

definition twice_linked :: "section_doc list" where
  "twice_linked = [\<lparr>s_name = ''A'', s_links = [demo_link]\<rparr>, \<lparr>s_name = ''B'', s_links = [demo_link]\<rparr>]"

text \<open>
  Two requests for the same new section A of the one course; both make their lookup,
  then both make their push.
\<close>

definition section_race :: "state \<times> progress list" where
  "section_race =
     run_schedule demo_env [(''LAEECS10013'', demo_section_body), (''LAEECS10013'', demo_section_body)]
       [0, 1, 0, 1] (demo_state [], [Waiting, Waiting])"

section \<open>Properties\<close>

subsection \<open>The username of link creation\<close>

text \<open>On a body whose username is a string or absent the third line never throws.\<close>

lemma link_username_eq:
  "link_username b = strip_at (if truthy (b ''username'') then str (b ''username'') else [])"
  by (cases "b ''username''")
    (simp_all add: link_username_def username_replaceAll_def js_truthy_def truthy_def str_def)

lemma username_replaceAll_string:
  "username_replaceAll (map_option JString x) =
     Some (strip_at (if truthy x then str x else []))"
  by (cases x) (simp_all add: username_replaceAll_def js_truthy_def truthy_def str_def)

lemma username_field_string: "username_field (map_option JString x) = x"
  by (cases x) (simp_all add: username_field_def)

subsection \<open>Report submission\<close>

text \<open>
  C9. A report that is accepted is stored with the remote address of the connection
  as its origin: an \<^verbatim>\<open>ip\<close> (or \<^verbatim>\<open>origin\<close>) field that the client puts in the body
  changes neither the stored report nor its origin.
\<close>

theorem report_ip_from_connection:
  assumes "truthy (b ''link_id'')" and "truthy (b ''reason'')" and "captcha_passes e b"
  shows "snd (post_report e s remote (b(''ip'' := x))) = snd (post_report e s remote b) \<and>
         snd (post_report e s remote (b(''ip'' := x, ''origin'' := y))) = snd (post_report e s remote b) \<and>
         status (fst (post_report e s remote (b(''ip'' := x)))) = 201 \<and>
         reports (snd (post_report e s remote (b(''ip'' := x)))) =
           reports s @ [\<lparr>r_link_id = b ''link_id'', r_reason = b ''reason'', r_ip = remote, r_createdAt = now e\<rparr>]"
  using assms
  by (simp add: post_report_def captcha_passes_def report_object_def new_Report_def created_def)

theorem report_ip_from_connection_witness:
  "truthy (demo_report_body ''link_id'') \<and> truthy (demo_report_body ''reason'') \<and>
   captcha_passes demo_env demo_report_body \<and>
   snd (post_report demo_env (demo_state []) (Some ''10.0.0.7'') (demo_report_body(''ip'' := Some ''6.6.6.6''))) =
     snd (post_report demo_env (demo_state []) (Some ''10.0.0.7'') demo_report_body) \<and>
   reports (snd (post_report demo_env (demo_state []) (Some ''10.0.0.7'')
                   (demo_report_body(''ip'' := Some ''6.6.6.6'')))) =
     reports (demo_state []) @
       [\<lparr>r_link_id = demo_report_body ''link_id'', r_reason = demo_report_body ''reason'',
         r_ip = Some ''10.0.0.7'', r_createdAt = now demo_env\<rparr>]"
proof -
  have h1: "truthy (demo_report_body ''link_id'')"
    by (simp add: demo_report_body_def truthy_def)
  have h2: "truthy (demo_report_body ''reason'')"
    by (simp add: demo_report_body_def truthy_def)
  have h3: "captcha_passes demo_env demo_report_body"
    by (simp add: demo_report_body_def demo_env_def captcha_passes_def)
  show ?thesis
    using h1 h2 h3
      report_ip_from_connection [OF h1 h2 h3, of "demo_state []" "Some ''10.0.0.7''" "Some ''6.6.6.6''" None]
    by blast
qed

subsection \<open>The captcha gate\<close>

text \<open>
  C2, as the code has it. Course creation, section creation, verification issuance and
  report submission answer 400 and leave the state as it was whenever the captcha
  token is absent or the captcha check fails. Link creation makes no captcha check:
  its answer's status and the state it leaves depend neither on a captcha field of the
  body nor on the captcha provider (it is gated by the e-mailed code instead).
\<close>

theorem captcha_gate_four_endpoints:
  assumes "\<not> captcha_passes e b"
  shows "post_courses e s b = (bad_request, s) \<and>
         post_sections e s p b = (bad_request, s) \<and>
         post_verify_create e s b = (bad_request, s) \<and>
         post_report e s remote b = (bad_request, s) \<and>
         status (fst (post_link (e\<lparr>captcha := f\<rparr>) s p sec (b(''captcha'' := t)))) =
           status (fst (post_link e s p sec b)) \<and>
         snd (post_link (e\<lparr>captcha := f\<rparr>) s p sec (b(''captcha'' := t))) = snd (post_link e s p sec b)"
proof -
  have u: "link_username (b(''captcha'' := t)) = link_username b"
    by (simp add: link_username_def)
  have c: "supplied_code (b(''captcha'' := t)) = supplied_code b"
    by (simp add: supplied_code_def)
  have fp: "link_fields_present p sec (b(''captcha'' := t)) = link_fields_present p sec b"
    by (simp add: link_fields_present_def)
  have g: "link_gate (e\<lparr>captcha := f\<rparr>) s p sec (b(''captcha'' := t)) = link_gate e s p sec b"
    by (simp add: link_gate_def u c fp Let_def)
  have nl: "new_Link (e\<lparr>captcha := f\<rparr>) (b(''captcha'' := t)) = new_Link e b"
    by (simp add: new_Link_def)
  have st: "status (fst (link_store (e\<lparr>captcha := f\<rparr>) s p sec (b(''captcha'' := t)))) =
            status (fst (link_store e s p sec b))"
    by (simp add: link_store_def nl created_def json_error_def findOneAndUpdate_def Let_def
        split: option.splits)
  have sn: "snd (link_store (e\<lparr>captcha := f\<rparr>) s p sec (b(''captcha'' := t))) = snd (link_store e s p sec b)"
    by (simp add: link_store_def nl findOneAndUpdate_def Let_def split: option.splits)
  have l1: "status (fst (post_link (e\<lparr>captcha := f\<rparr>) s p sec (b(''captcha'' := t)))) =
            status (fst (post_link e s p sec b))"
    by (simp add: post_link_def g st split: option.splits)
  have l2: "snd (post_link (e\<lparr>captcha := f\<rparr>) s p sec (b(''captcha'' := t))) = snd (post_link e s p sec b)"
    by (simp add: post_link_def g sn split: option.splits)
  have r1: "post_courses e s b = (bad_request, s)"
    using assms by (simp add: post_courses_def)
  have r2: "post_sections e s p b = (bad_request, s)"
    using assms by (simp add: post_sections_def section_check_def)
  have r3: "post_verify_create e s b = (bad_request, s)"
    using assms by (simp add: post_verify_create_def)
  have r4: "post_report e s remote b = (bad_request, s)"
    using assms by (simp add: post_report_def)
  show ?thesis using r1 r2 r3 r4 l1 l2 by simp
qed

theorem captcha_gate_four_endpoints_witness:
  "\<not> captcha_passes demo_env (demo_course_body(''captcha'' \<mapsto> ''bad'')) \<and>
   post_courses demo_env (demo_state []) (demo_course_body(''captcha'' \<mapsto> ''bad'')) = (bad_request, demo_state []) \<and>
   post_sections demo_env (demo_state []) ''LAEECS10013'' (demo_course_body(''captcha'' \<mapsto> ''bad'')) =
     (bad_request, demo_state []) \<and>
   post_verify_create demo_env (demo_state []) (demo_course_body(''captcha'' \<mapsto> ''bad'')) =
     (bad_request, demo_state []) \<and>
   post_report demo_env (demo_state []) None (demo_course_body(''captcha'' \<mapsto> ''bad'')) =
     (bad_request, demo_state [])"
proof -
  have h: "\<not> captcha_passes demo_env (demo_course_body(''captcha'' \<mapsto> ''bad''))"
    by (simp add: captcha_passes_def demo_env_def)
  show ?thesis
    using h captcha_gate_four_endpoints [OF h, of "demo_state []" "''LAEECS10013''" None]
    by simp
qed

text \<open>
  C2 as stated fails for link creation: a request with no captcha token at all, for a
  user whose e-mailed code matches, is answered 201 and the link is stored.
\<close>

theorem link_without_captcha_counterexample:
  "demo_link_body ''captcha'' = None \<and>
   \<not> captcha_passes demo_env (demo_link_body(''url'' \<mapsto> ''https://chat/2'')) \<and>
   status (fst (post_link demo_env (demo_state two_sections) ''LAEECS10013'' ''B''
                  (demo_link_body(''url'' \<mapsto> ''https://chat/2'')))) = 201 \<and>
   map (\<lambda>c. map (\<lambda>sec. map l_url (s_links sec)) (c_sections c))
     (courses (snd (post_link demo_env (demo_state two_sections) ''LAEECS10013'' ''B''
                      (demo_link_body(''url'' \<mapsto> ''https://chat/2''))))) =
     [[[], [''https://chat/1'', ''https://chat/2'']]] \<and>
   map (\<lambda>c. map (\<lambda>sec. map l_url (s_links sec)) (c_sections c)) (courses (demo_state two_sections)) =
     [[[], [''https://chat/1'']]]"
  by code_simp

subsection \<open>Link creation: the verification gate\<close>

lemma link_username_truthy: "truthy (b ''username'') \<Longrightarrow> link_username b = strip_at (str (b ''username''))"
  by (simp add: link_username_eq)

lemma supplied_code_truthy: "truthy (b ''code'') \<Longrightarrow> supplied_code b = str (b ''code'')"
  by (simp add: supplied_code_def)

text \<open>
  On a body whose username is a string or absent, link creation answers 400 when a
  required field is missing, whatever the verifier holds; with every field present it
  answers 410 when there is no live record for the username with its \<^verbatim>\<open>@\<close> removed,
  401 when there is one and the supplied code differs from the stored one, and goes on
  to the store only when they are equal. On the 400, 410 and 401 paths the state is
  unchanged, so a changed state implies a matching code.
\<close>

lemma link_gate_statuses:
  "(\<not> link_fields_present p sec b \<longrightarrow> post_link e s p sec b = (bad_request, s)) \<and>
   (link_fields_present p sec b \<and>
    live_record (verifier s) (now e) (strip_at (str (b ''username''))) = None
      \<longrightarrow> status (fst (post_link e s p sec b)) = 410 \<and> snd (post_link e s p sec b) = s) \<and>
   (link_fields_present p sec b \<and>
    live_record (verifier s) (now e) (strip_at (str (b ''username''))) = Some r \<and>
    v_code r \<noteq> str (b ''code'')
      \<longrightarrow> status (fst (post_link e s p sec b)) = 401 \<and> snd (post_link e s p sec b) = s) \<and>
   (link_fields_present p sec b \<and>
    live_record (verifier s) (now e) (strip_at (str (b ''username''))) = Some r \<and>
    v_code r = str (b ''code'')
      \<longrightarrow> post_link e s p sec b = link_store e s p sec b) \<and>
   (snd (post_link e s p sec b) \<noteq> s
      \<longrightarrow> link_fields_present p sec b \<and>
          map_option v_code (live_record (verifier s) (now e) (strip_at (str (b ''username'')))) =
            Some (str (b ''code'')))"
proof -
  have a: "\<not> link_fields_present p sec b \<Longrightarrow> link_gate e s p sec b = Some bad_request"
    by (simp add: link_gate_def)
  have pres: "link_fields_present p sec b \<Longrightarrow>
      link_username b = strip_at (str (b ''username'')) \<and> supplied_code b = str (b ''code'')"
    by (simp add: link_fields_present_def link_username_truthy supplied_code_truthy)
  have b: "link_fields_present p sec b \<Longrightarrow>
      live_record (verifier s) (now e) (strip_at (str (b ''username''))) = None \<Longrightarrow>
      link_gate e s p sec b = Some (json_error GONE ''Email code expired. Refresh the page.'')"
    using pres by (simp add: link_gate_def hasCode_def)
  have c: "link_fields_present p sec b \<Longrightarrow>
      live_record (verifier s) (now e) (strip_at (str (b ''username''))) = Some r \<Longrightarrow>
      v_code r \<noteq> str (b ''code'') \<Longrightarrow>
      link_gate e s p sec b = Some (json_error UNAUTHORIZED ''Email code does not match records. Unauthorized!'')"
    using pres by (simp add: link_gate_def hasCode_def checkCode_def)
  have d: "link_fields_present p sec b \<Longrightarrow>
      live_record (verifier s) (now e) (strip_at (str (b ''username''))) = Some r \<Longrightarrow>
      v_code r = str (b ''code'') \<Longrightarrow> link_gate e s p sec b = None"
    using pres by (simp add: link_gate_def hasCode_def checkCode_def)
  have e: "snd (post_link e s p sec b) \<noteq> s \<Longrightarrow> link_gate e s p sec b = None"
    by (cases "link_gate e s p sec b") (simp_all add: post_link_def)
  have f1: "link_gate e s p sec b = None \<Longrightarrow> link_fields_present p sec b"
    using a by (cases "link_fields_present p sec b") simp_all
  have f2: "link_gate e s p sec b = None \<Longrightarrow>
          map_option v_code (live_record (verifier s) (now e) (strip_at (str (b ''username'')))) =
            Some (str (b ''code''))"
  proof -
    assume g: "link_gate e s p sec b = None"
    then have fp: "link_fields_present p sec b" by (rule f1)
    show ?thesis
    proof (cases "live_record (verifier s) (now e) (strip_at (str (b ''username'')))")
      case None
      with b [OF fp] g show ?thesis by simp
    next
      case (Some r')
      have pr: "link_username b = strip_at (str (b ''username''))" "supplied_code b = str (b ''code'')"
        using pres [OF fp] by simp_all
      from g fp Some pr have "v_code r' = str (b ''code'')"
        by (simp add: link_gate_def hasCode_def checkCode_def split: if_splits)
      with Some show ?thesis by simp
    qed
  qed
  have c1: "\<not> link_fields_present p sec b \<longrightarrow> post_link e s p sec b = (bad_request, s)"
    using a by (simp add: post_link_def)
  have c2: "link_fields_present p sec b \<and>
    live_record (verifier s) (now e) (strip_at (str (b ''username''))) = None
      \<longrightarrow> status (fst (post_link e s p sec b)) = 410 \<and> snd (post_link e s p sec b) = s"
    using b by (simp add: post_link_def json_error_def)
  have c3: "link_fields_present p sec b \<and>
    live_record (verifier s) (now e) (strip_at (str (b ''username''))) = Some r \<and>
    v_code r \<noteq> str (b ''code'')
      \<longrightarrow> status (fst (post_link e s p sec b)) = 401 \<and> snd (post_link e s p sec b) = s"
    using c by (simp add: post_link_def json_error_def)
  have c4: "link_fields_present p sec b \<and>
    live_record (verifier s) (now e) (strip_at (str (b ''username''))) = Some r \<and>
    v_code r = str (b ''code'')
      \<longrightarrow> post_link e s p sec b = link_store e s p sec b"
    using d by (simp add: post_link_def)
  have c5: "snd (post_link e s p sec b) \<noteq> s
      \<longrightarrow> link_fields_present p sec b \<and>
          map_option v_code (live_record (verifier s) (now e) (strip_at (str (b ''username'')))) =
            Some (str (b ''code''))"
    using e f1 f2 by blast
  show ?thesis
    using c1 c2 c3 c4 c5 by blast
qed


lemma link_gate_statuses_witness:
  "(\<not> link_fields_present ''LAEECS10013'' ''B'' (demo_link_body(''terms'' := None)) \<and>
    post_link demo_env (demo_state two_sections) ''LAEECS10013'' ''B'' (demo_link_body(''terms'' := None)) =
      (bad_request, demo_state two_sections)) \<and>
   (link_fields_present ''LAEECS10013'' ''B'' (demo_link_body(''username'' \<mapsto> ''bob'')) \<and>
    live_record (verifier (demo_state two_sections)) (now demo_env) ''bob'' = None \<and>
    status (fst (post_link demo_env (demo_state two_sections) ''LAEECS10013'' ''B''
                   (demo_link_body(''username'' \<mapsto> ''bob'')))) = 410 \<and>
    snd (post_link demo_env (demo_state two_sections) ''LAEECS10013'' ''B''
           (demo_link_body(''username'' \<mapsto> ''bob''))) = demo_state two_sections) \<and>
   (link_fields_present ''LAEECS10013'' ''B'' (demo_link_body(''code'' \<mapsto> ''999999'')) \<and>
    map_option v_code (live_record (verifier (demo_state two_sections)) (now demo_env) ''alice'') = Some ''111111'' \<and>
    status (fst (post_link demo_env (demo_state two_sections) ''LAEECS10013'' ''B''
                   (demo_link_body(''code'' \<mapsto> ''999999'')))) = 401 \<and>
    snd (post_link demo_env (demo_state two_sections) ''LAEECS10013'' ''B''
           (demo_link_body(''code'' \<mapsto> ''999999''))) = demo_state two_sections) \<and>
   (link_fields_present ''LAEECS10013'' ''B'' demo_link_body \<and>
    post_link demo_env (demo_state two_sections) ''LAEECS10013'' ''B'' demo_link_body =
      link_store demo_env (demo_state two_sections) ''LAEECS10013'' ''B'' demo_link_body)"
proof -
  let ?s = "demo_state two_sections"
  let ?r = "\<lparr>v_code = ''111111'', v_issued = 1000\<rparr>"
  have pc: "param_code ''LAEECS10013'' \<noteq> []"
    by code_simp
  have h1: "\<not> link_fields_present ''LAEECS10013'' ''B'' (demo_link_body(''terms'' := None))"
    by (simp add: link_fields_present_def truthy_def)
  have h2: "link_fields_present ''LAEECS10013'' ''B'' (demo_link_body(''username'' \<mapsto> ''bob''))"
    using pc by (simp add: link_fields_present_def truthy_def demo_link_body_def)
  have h3: "link_fields_present ''LAEECS10013'' ''B'' (demo_link_body(''code'' \<mapsto> ''999999''))"
    using pc by (simp add: link_fields_present_def truthy_def demo_link_body_def)
  have h4: "link_fields_present ''LAEECS10013'' ''B'' demo_link_body"
    using pc by (simp add: link_fields_present_def truthy_def demo_link_body_def)
  have v2: "live_record (verifier ?s) (now demo_env) ''bob'' = None"
    by (simp add: live_record_def demo_state_def)
  have v3: "live_record (verifier ?s) (now demo_env) ''alice'' = Some ?r"
    by (simp add: live_record_def demo_state_def demo_env_def TTL_MS_def)
  have v3': "map_option v_code (live_record (verifier ?s) (now demo_env) ''alice'') = Some ''111111''"
    by (simp add: v3)
  have u2: "strip_at (str ((demo_link_body(''username'' \<mapsto> ''bob'')) ''username'')) = ''bob''"
    by (simp add: strip_at_def str_def)
  have u3: "strip_at (str ((demo_link_body(''code'' \<mapsto> ''999999'')) ''username'')) = ''alice''"
    by (simp add: strip_at_def str_def demo_link_body_def)
  have u4: "strip_at (str (demo_link_body ''username'')) = ''alice''"
    by (simp add: strip_at_def str_def demo_link_body_def)
  have k3: "v_code ?r \<noteq> str ((demo_link_body(''code'' \<mapsto> ''999999'')) ''code'')"
    by (simp add: str_def)
  have k4: "v_code ?r = str (demo_link_body ''code'')"
    by (simp add: str_def demo_link_body_def)
  have l2: "live_record (verifier ?s) (now demo_env)
              (strip_at (str ((demo_link_body(''username'' \<mapsto> ''bob'')) ''username''))) = None"
    by (simp only: u2 v2)
  have l3: "live_record (verifier ?s) (now demo_env)
              (strip_at (str ((demo_link_body(''code'' \<mapsto> ''999999'')) ''username''))) = Some ?r"
    by (simp only: u3 v3)
  have l4: "live_record (verifier ?s) (now demo_env) (strip_at (str (demo_link_body ''username''))) = Some ?r"
    by (simp only: u4 v3)
  have w1: "post_link demo_env ?s ''LAEECS10013'' ''B'' (demo_link_body(''terms'' := None)) = (bad_request, ?s)"
    using h1 link_gate_statuses [of "''LAEECS10013''" "''B''" "demo_link_body(''terms'' := None)" demo_env ?s ?r]
    by blast
  have w2: "status (fst (post_link demo_env ?s ''LAEECS10013'' ''B'' (demo_link_body(''username'' \<mapsto> ''bob'')))) = 410 \<and>
            snd (post_link demo_env ?s ''LAEECS10013'' ''B'' (demo_link_body(''username'' \<mapsto> ''bob''))) = ?s"
    using h2 l2
      link_gate_statuses [of "''LAEECS10013''" "''B''" "demo_link_body(''username'' \<mapsto> ''bob'')" demo_env ?s ?r]
    by blast
  have w3: "status (fst (post_link demo_env ?s ''LAEECS10013'' ''B'' (demo_link_body(''code'' \<mapsto> ''999999'')))) = 401 \<and>
            snd (post_link demo_env ?s ''LAEECS10013'' ''B'' (demo_link_body(''code'' \<mapsto> ''999999''))) = ?s"
    using h3 l3 k3
      link_gate_statuses [of "''LAEECS10013''" "''B''" "demo_link_body(''code'' \<mapsto> ''999999'')" demo_env ?s ?r]
    by blast
  have w4: "post_link demo_env ?s ''LAEECS10013'' ''B'' demo_link_body =
            link_store demo_env ?s ''LAEECS10013'' ''B'' demo_link_body"
    using h4 l4 k4
      link_gate_statuses [of "''LAEECS10013''" "''B''" demo_link_body demo_env ?s ?r]
    by blast
  show ?thesis
    using h1 h2 h3 h4 v2 v3' w1 w2 w3 w4 by blast
qed

text \<open>
  A request whose username is a string or absent is answered, and as \<open>post_link\<close>
  answers it; a request is left without an answer exactly when the third line throws,
  that is when the username is truthy and not a string.
\<close>

lemma post_link_request_string:
  "post_link_request e s p sec (map_option JString (b ''username'')) b =
     (Some (fst (post_link e s p sec b)), snd (post_link e s p sec b))"
proof -
  have "b(''username'' := b ''username'') = b"
    by (rule fun_upd_triv)
  then show ?thesis
    by (simp add: post_link_request_def username_replaceAll_string username_field_string
        split: prod.splits)
qed

lemma post_link_request_unanswered_iff:
  "fst (post_link_request e s p sec u b) = None \<longleftrightarrow> username_replaceAll u = None"
  by (cases "username_replaceAll u") (simp_all add: post_link_request_def split: prod.splits)

lemma username_replaceAll_throws_iff:
  "username_replaceAll u = None \<longleftrightarrow> (\<exists>v. u = Some v \<and> js_truthy v \<and> (\<forall>s. v \<noteq> JString s))"
proof (cases u)
  case None
  then show ?thesis by (simp add: username_replaceAll_def)
next
  case (Some v)
  then show ?thesis
    by (cases v) (simp_all add: username_replaceAll_def js_truthy_def)
qed

text \<open>
  C5. The claim has 400 answered whenever a required field is missing, and 410 or 401
  from the verifier otherwise, with no state change on these paths. With the number 1
  for a username the third line of the handler throws before any test is made, outside
  the \<^verbatim>\<open>try\<close> block: whether the other fields are missing (where a request without
  the username, or with a string for one, is answered 400) or all present (where the
  string \<open>bob\<close>, who has no code, is answered 410), no answer is sent at all.
\<close>

theorem link_non_string_username_unanswered:
  "username_replaceAll (Some (JNumber 1)) = None \<and>
   fst (post_link_request demo_env (demo_state two_sections) ''LAEECS10013'' ''B'' None Map.empty) =
     Some bad_request \<and>
   fst (post_link_request demo_env (demo_state two_sections) ''LAEECS10013'' ''B''
          (Some (JString ''alice'')) Map.empty) = Some bad_request \<and>
   post_link_request demo_env (demo_state two_sections) ''LAEECS10013'' ''B'' (Some (JNumber 1)) Map.empty =
     (None, demo_state two_sections) \<and>
   map_option status
     (fst (post_link_request demo_env (demo_state two_sections) ''LAEECS10013'' ''B''
             (Some (JString ''bob'')) demo_link_body)) = Some 410 \<and>
   post_link_request demo_env (demo_state two_sections) ''LAEECS10013'' ''B'' (Some (JNumber 1)) demo_link_body =
     (None, demo_state two_sections)"
proof -
  let ?s = "demo_state two_sections"
  have t: "username_replaceAll (Some (JNumber 1)) = None"
    by (simp add: username_replaceAll_def js_truthy_def)
  have n: "post_link_request demo_env ?s ''LAEECS10013'' ''B'' (Some (JNumber 1)) Map.empty = (None, ?s)"
    by (simp add: post_link_request_def t)
  have n': "post_link_request demo_env ?s ''LAEECS10013'' ''B'' (Some (JNumber 1)) demo_link_body = (None, ?s)"
    by (simp add: post_link_request_def t)
  have a: "fst (post_link_request demo_env ?s ''LAEECS10013'' ''B'' None Map.empty) = Some bad_request"
    by (simp add: post_link_request_def username_replaceAll_def username_field_def post_link_def
        link_gate_def link_fields_present_def truthy_def split: prod.splits)
  have b: "fst (post_link_request demo_env ?s ''LAEECS10013'' ''B'' (Some (JString ''alice'')) Map.empty) =
           Some bad_request"
    by (simp add: post_link_request_def username_replaceAll_def js_truthy_def username_field_def
        post_link_def link_gate_def link_fields_present_def truthy_def split: prod.splits)
  have c: "map_option status
     (fst (post_link_request demo_env ?s ''LAEECS10013'' ''B'' (Some (JString ''bob'')) demo_link_body)) =
     Some 410"
    by code_simp
  show ?thesis
    using t n n' a b c by blast
qed

subsection \<open>The identity key\<close>







subsection \<open>Section creation\<close>

lemma update_first_no_match: "\<not> (\<exists>d \<in> set ds. p d) \<Longrightarrow> update_first p f ds = ds"
  by (induction ds) auto

lemma update_first_hits:
  "\<exists>d \<in> set ds. p d \<Longrightarrow> (\<And>d. p d \<Longrightarrow> q (f d)) \<Longrightarrow> \<exists>d \<in> set (update_first p f ds). q d"
  by (induction ds) auto

lemma update_first_all:
  "list_all q ds \<Longrightarrow> (\<And>d. d \<in> set ds \<Longrightarrow> p d \<Longrightarrow> q (f d)) \<Longrightarrow> list_all q (update_first p f ds)"
  by (induction ds) auto

lemma findOne_None: "findOne p ds = None \<longleftrightarrow> \<not> (\<exists>d \<in> set ds. p d)"
  by (auto simp add: findOne_def find_None_iff)

lemma sections_name_push: "sections_name (s_name sec) (push_section sec c)"
  by (simp add: sections_name_def push_section_def)

lemma distinct_push:
  "distinct (map s_name (c_sections c)) \<Longrightarrow> \<not> sections_name (s_name sec) c \<Longrightarrow>
   distinct (map s_name (c_sections (push_section sec c)))"
  by (auto simp add: sections_name_def push_section_def)

lemma post_sections_conflict:
  assumes "param_code p \<noteq> []" and "truthy (b ''name'')" and "captcha_passes e b"
    and "\<exists>c \<in> set (courses s). c_code c = param_code p \<and> sections_name (str (b ''name'')) c"
  shows "post_sections e s p b = (json_error CONFLICT ''Section already exists.'', s)"
proof -
  have "findOne (\<lambda>c. c_code c = param_code p \<and> sections_name (str (b ''name'')) c) (courses s) \<noteq> None"
    using assms(4) by (simp add: findOne_None)
  then obtain c where "findOne (\<lambda>c. c_code c = param_code p \<and> sections_name (str (b ''name'')) c) (courses s) = Some c"
    by blast
  then show ?thesis
    using assms(1-3) by (simp add: post_sections_def section_check_def)
qed

lemma post_sections_fresh:
  assumes "param_code p \<noteq> []" and "truthy (b ''name'')" and "captcha_passes e b"
    and "\<not> (\<exists>c \<in> set (courses s). c_code c = param_code p \<and> sections_name (str (b ''name'')) c)"
    and "\<exists>c \<in> set (courses s). c_code c = param_code p"
  shows "post_sections e s p b =
     (created b, s\<lparr>courses := update_first (\<lambda>c. c_code c = param_code p) (push_section (new_Section b)) (courses s)\<rparr>)"
proof -
  have n: "findOne (\<lambda>c. c_code c = param_code p \<and> sections_name (str (b ''name'')) c) (courses s) = None"
    using assms(4) by (simp add: findOne_None)
  have "findOne (\<lambda>c. c_code c = param_code p) (courses s) \<noteq> None"
    using assms(5) by (simp add: findOne_None)
  then obtain c where f: "findOne (\<lambda>c. c_code c = param_code p) (courses s) = Some c"
    by blast
  have chk: "section_check e s p b = None"
    using assms(1-3) n by (simp add: section_check_def)
  show ?thesis
    using chk f by (simp add: post_sections_def section_push_def findOneAndUpdate_def)
qed

lemma in_turn_conflict:
  assumes "param_code p \<noteq> []" and "truthy (b ''name'')" and "captcha_passes e b"
    and "\<exists>c \<in> set (courses s). c_code c = param_code p \<and> sections_name (str (b ''name'')) c"
  shows "sections_in_turn e p b n s = (replicate n 409, s)"
proof (induction n)
  case 0
  show ?case by simp
next
  case (Suc n)
  show ?case
    using post_sections_conflict [OF assms] Suc by (simp add: json_error_def)
qed

text \<open>Two steps of a request in a row are the handler run without interruption.\<close>

lemma step_request_twice:
  "step_request e (p, b) (step_request e (p, b) (s, Waiting)) =
     (snd (post_sections e s p b), Done (fst (post_sections e s p b)))"
  by (cases "section_check e s p b")
    (simp_all add: step_request_def post_sections_def split: prod.splits)

text \<open>
  C1, as the code has it. The duplicate-name lookup and the push are two separate calls
  to the store. When the requests are handled one after another, each to its end, then
  of any number of valid section-creation requests with the same course code and name,
  aimed at an existing course that has no section of that name yet, the first is
  answered 201 and every later one 409, and no course ends up with two sections of one
  name.
\<close>

theorem sections_one_after_another:
  assumes v1: "param_code p \<noteq> []" and v2: "truthy (b ''name'')" and v3: "captcha_passes e b"
    and ex: "\<exists>c \<in> set (courses s). c_code c = param_code p"
    and fresh: "\<not> (\<exists>c \<in> set (courses s). c_code c = param_code p \<and> sections_name (str (b ''name'')) c)"
    and inv: "section_names_distinct s"
  shows "fst (sections_in_turn e p b (Suc n) s) = 201 # replicate n 409 \<and>
         section_names_distinct (snd (sections_in_turn e p b (Suc n) s)) \<and>
         section_names_distinct (snd (post_sections e s p b))"
proof -
  let ?P = "\<lambda>c. c_code c = param_code p"
  let ?cs = "update_first ?P (push_section (new_Section b)) (courses s)"
  let ?s' = "s\<lparr>courses := ?cs\<rparr>"
  have first: "post_sections e s p b = (created b, ?s')"
    by (rule post_sections_fresh [OF v1 v2 v3 fresh ex])
  have nm: "s_name (new_Section b) = str (b ''name'')"
    by (simp add: new_Section_def)
  have "\<exists>c \<in> set ?cs. c_code c = param_code p \<and> sections_name (str (b ''name'')) c"
  proof (rule update_first_hits [OF ex])
    fix d :: course_doc assume "c_code d = param_code p"
    then show "c_code (push_section (new_Section b) d) = param_code p \<and>
               sections_name (str (b ''name'')) (push_section (new_Section b) d)"
      using sections_name_push [of "new_Section b" d] by (simp add: nm push_section_def)
  qed
  then have conf: "\<exists>c \<in> set (courses ?s'). c_code c = param_code p \<and> sections_name (str (b ''name'')) c"
    by simp
  have rest: "sections_in_turn e p b n ?s' = (replicate n 409, ?s')"
    by (rule in_turn_conflict [OF v1 v2 v3 conf])
  have "list_all (\<lambda>c. distinct (map s_name (c_sections c))) ?cs"
  proof (rule update_first_all)
    show "list_all (\<lambda>c. distinct (map s_name (c_sections c))) (courses s)"
      using inv by (simp add: section_names_distinct_def)
  next
    fix d :: course_doc assume d: "d \<in> set (courses s)" and c: "c_code d = param_code p"
    then have "\<not> sections_name (s_name (new_Section b)) d"
      using fresh nm by auto
    moreover have "distinct (map s_name (c_sections d))"
      using inv d by (simp add: section_names_distinct_def list_all_iff)
    ultimately show "distinct (map s_name (c_sections (push_section (new_Section b) d)))"
      by (simp add: distinct_push)
  qed
  then have inv': "section_names_distinct ?s'"
    by (simp add: section_names_distinct_def)
  show ?thesis
    using first rest inv' by (simp add: created_def)
qed

theorem sections_one_after_another_witness:
  "param_code ''LAEECS10013'' \<noteq> [] \<and> truthy (demo_section_body ''name'') \<and>
   captcha_passes demo_env demo_section_body \<and>
   (\<exists>c \<in> set (courses (demo_state [])). c_code c = param_code ''LAEECS10013'') \<and>
   \<not> (\<exists>c \<in> set (courses (demo_state [])).
         c_code c = param_code ''LAEECS10013'' \<and> sections_name (str (demo_section_body ''name'')) c) \<and>
   section_names_distinct (demo_state []) \<and>
   fst (sections_in_turn demo_env ''LAEECS10013'' demo_section_body (Suc 2) (demo_state [])) =
     201 # replicate 2 409 \<and>
   section_names_distinct (snd (sections_in_turn demo_env ''LAEECS10013'' demo_section_body (Suc 2) (demo_state [])))"
proof -
  have pc: "param_code ''LAEECS10013'' = ''LAEECS10013''"
    by code_simp
  have h1: "param_code ''LAEECS10013'' \<noteq> []"
    by (simp add: pc)
  have h2: "truthy (demo_section_body ''name'')"
    by (simp add: demo_section_body_def truthy_def)
  have h3: "captcha_passes demo_env demo_section_body"
    by (simp add: demo_section_body_def demo_env_def captcha_passes_def)
  have h4: "\<exists>c \<in> set (courses (demo_state [])). c_code c = param_code ''LAEECS10013''"
    by (simp add: pc demo_state_def demo_course_def)
  have h5: "\<not> (\<exists>c \<in> set (courses (demo_state [])).
         c_code c = param_code ''LAEECS10013'' \<and> sections_name (str (demo_section_body ''name'')) c)"
    by (simp add: demo_state_def demo_course_def sections_name_def)
  have h6: "section_names_distinct (demo_state [])"
    by (simp add: section_names_distinct_def demo_state_def demo_course_def)
  show ?thesis
    using h1 h2 h3 h4 h5 h6
      sections_one_after_another [OF h1 h2 h3 h4 h5 h6, of 2]
    by blast
qed

text \<open>
  C1 as stated fails: the lookup and the push are not one atomic update. Two requests
  for the same new section, both making their lookup before either makes its push, are
  both answered 201, and the course holds the section twice.
\<close>

theorem section_race_counterexample:
  "map answered (snd section_race) = [Some 201, Some 201] \<and>
   map (\<lambda>c. map s_name (c_sections c)) (courses (fst section_race)) = [[''A'', ''A'']] \<and>
   \<not> section_names_distinct (fst section_race) \<and>
   section_names_distinct (demo_state [])"
  by code_simp

subsection \<open>Course creation\<close>

text \<open>
  For a request with every field present and a captcha that passes, the handler answers
  409 exactly when some course has the concatenation, as it was sent, for its code.
\<close>

lemma post_courses_conflict_iff:
  assumes "truthy (b ''name'')" and "truthy (b ''subject'')" and "truthy (b ''number'')"
    and "truthy (b ''faculty'')" and "truthy (b ''credits'')" and "captcha_passes e b"
  shows "status (fst (post_courses e s b)) = 409 \<longleftrightarrow> (\<exists>c \<in> set (courses s). c_code c = lookup_code b)"
proof (cases "findOne (\<lambda>c. c_code c = lookup_code b) (courses s)")
  case None
  have r: "post_courses e s b = (created b, s\<lparr>courses := courses s @ [new_Course b]\<rparr>)"
    using assms by (simp add: post_courses_def None)
  have "\<not> (\<exists>c \<in> set (courses s). c_code c = lookup_code b)"
    by (rule iffD1 [OF findOne_None None])
  then show ?thesis
    by (simp add: r created_def)
next
  case (Some c)
  have r: "post_courses e s b = (json_error CONFLICT ''Course already exists.'', s)"
    using assms by (simp add: post_courses_def Some)
  have "findOne (\<lambda>c. c_code c = lookup_code b) (courses s) \<noteq> None"
    by (simp add: Some)
  then have "\<exists>c \<in> set (courses s). c_code c = lookup_code b"
    by (simp only: findOne_None not_not)
  then show ?thesis
    by (simp add: r json_error_def)
qed

text \<open>
  C3. The claim has 409 answered when a course exists whose code is the upper-case,
  trimmed concatenation. The handler looks the concatenation up as it was sent: with
  the fields in lower case and the course \<^verbatim>\<open>LAEECS10013\<close> in the store, the request
  is answered 201 and a second course of the same code is stored.
\<close>

theorem course_lowercase_no_conflict:
  "derived_code demo_course_body = ''LAEECS10013'' \<and>
   map c_code (courses (demo_state [])) = [''LAEECS10013''] \<and>
   status (fst (post_courses demo_env (demo_state []) demo_course_body)) = 201 \<and>
   map c_code (courses (snd (post_courses demo_env (demo_state []) demo_course_body))) =
     [''LAEECS10013'', ''LAEECS10013'']"
  by code_simp

subsection \<open>Link creation: the conflict check\<close>

text \<open>
  Past the gate, 409 is answered exactly when some course has the code, a section of
  the name and, in any of its sections, a link to the url.
\<close>

lemma link_store_conflict_iff:
  "status (fst (link_store e s p sec b)) = 409 \<longleftrightarrow>
   (\<exists>c \<in> set (courses s). c_code c = param_code p \<and> sections_name sec c \<and> sections_links_url (str (b ''url'')) c)"
proof (cases "findOne (\<lambda>c. c_code c = param_code p \<and> sections_name sec c \<and> sections_links_url (str (b ''url'')) c) (courses s)")
  case None
  have r: "status (fst (link_store e s p sec b)) \<noteq> 409"
    by (simp add: link_store_def None findOneAndUpdate_def created_def json_error_def Let_def
        split: option.splits)
  have "\<not> (\<exists>c \<in> set (courses s). c_code c = param_code p \<and> sections_name sec c \<and> sections_links_url (str (b ''url'')) c)"
    by (rule iffD1 [OF findOne_None None])
  then show ?thesis
    using r by blast
next
  case (Some c)
  have r: "status (fst (link_store e s p sec b)) = 409"
    by (simp add: link_store_def Some json_error_def)
  have "findOne (\<lambda>c. c_code c = param_code p \<and> sections_name sec c \<and> sections_links_url (str (b ''url'')) c) (courses s) \<noteq> None"
    by (simp add: Some)
  then have "\<exists>c \<in> set (courses s). c_code c = param_code p \<and> sections_name sec c \<and> sections_links_url (str (b ''url'')) c"
    by (simp only: findOne_None not_not)
  then show ?thesis
    using r by blast
qed

text \<open>
  C4. The claim has no conflict when the url exists only under another section. With
  section A empty and the url under section B, a request to add it to A is answered
  409 and nothing is stored.
\<close>

theorem link_conflict_from_other_section:
  "map (\<lambda>sec. (s_name sec, map l_url (s_links sec))) two_sections = [(''A'', []), (''B'', [''https://chat/1''])] \<and>
   demo_link_body ''url'' = Some ''https://chat/1'' \<and>
   status (fst (post_link demo_env (demo_state two_sections) ''LAEECS10013'' ''A'' demo_link_body)) = 409 \<and>
   courses (snd (post_link demo_env (demo_state two_sections) ''LAEECS10013'' ''A'' demo_link_body)) =
     courses (demo_state two_sections)"
  by code_simp

subsection \<open>Verification issuance\<close>

text \<open>
  A request whose identity has an issuance age that is present, not 0 and below 15
  minutes is answered 201 and changes nothing: no code is drawn, nothing is handed to
  the mail provider.
\<close>

lemma verify_create_within_cooldown:
  assumes "truthy (b ''username'')" and "captcha_passes e b"
    and "checkCodeTime (verifier s) (now e) (strip_at (str (b ''username''))) = Some a"
    and "a \<noteq> 0" and "a < 15"
  shows "post_verify_create e s b = (created b, s)"
  using assms by (simp add: post_verify_create_def within_cooldown_def)

text \<open>
  C6. The claim covers every age that is present and below 15 minutes. At age 0 the
  test \<^verbatim>\<open>codeTime && codeTime < 15\<close> is false, since 0 is falsy: the handler draws a
  new code, overwrites the stored one and hands a message to the mail provider.
\<close>

theorem verify_create_age_zero_reissues:
  "checkCodeTime (verifier (demo_state [])) (now demo_env) ''alice'' = Some 0 \<and>
   map_option v_code (verifier (demo_state []) ''alice'') = Some ''111111'' \<and>
   outbox (demo_state []) = [] \<and>
   status (fst (post_verify_create demo_env (demo_state []) [''username'' \<mapsto> ''alice'', ''captcha'' \<mapsto> ''ok''])) = 201 \<and>
   map_option v_code
     (verifier (snd (post_verify_create demo_env (demo_state []) [''username'' \<mapsto> ''alice'', ''captcha'' \<mapsto> ''ok'']))
        ''alice'') = Some ''222222'' \<and>
   outbox (snd (post_verify_create demo_env (demo_state []) [''username'' \<mapsto> ''alice'', ''captcha'' \<mapsto> ''ok''])) =
     [(''alice'', ''222222'')]"
  by code_simp

subsection \<open>Link clicks\<close>

text \<open>
  C7. The claim has only the link of the named section incremented, and nothing
  changed when that section has no such link. The array filters select the sections by
  the url, not by the name: a click on the url under section A, which has no link,
  increments the link under section B; and with the url under both sections, both
  counters are incremented.
\<close>

theorem click_increments_other_section:
  "map (\<lambda>sec. (s_name sec, map l_clicks (s_links sec))) two_sections = [(''A'', []), (''B'', [0])] \<and>
   status (fst (post_link_click (demo_state two_sections) ''LAEECS10013'' ''A'' [''url'' \<mapsto> ''https://chat/1''])) = 201 \<and>
   map (\<lambda>c. map (\<lambda>sec. (s_name sec, map l_clicks (s_links sec))) (c_sections c))
     (courses (snd (post_link_click (demo_state two_sections) ''LAEECS10013'' ''A'' [''url'' \<mapsto> ''https://chat/1'']))) =
     [[(''A'', []), (''B'', [1])]] \<and>
   map (\<lambda>c. map (\<lambda>sec. (s_name sec, map l_clicks (s_links sec))) (c_sections c))
     (courses (snd (post_link_click (demo_state twice_linked) ''LAEECS10013'' ''A'' [''url'' \<mapsto> ''https://chat/1'']))) =
     [[(''A'', [1]), (''B'', [1])]]"
  by code_simp

text \<open>
  C8. The claim has the click route gated by the 60 s / 3 and the 3600 s / 10 limiters.
  The route names \<open>newLinkLimiter\<close> (60 s / 30) only; \<open>linkClicksLimiter\<close> and
  \<open>linkClicksLongLimiter\<close> are defined and used by no route. Four click requests by
  one caller within four seconds are all answered 201.
\<close>

theorem click_fourth_request_admitted:
  "click_requests (Map.empty, demo_state two_sections) ''LAEECS10013'' ''B'' [''url'' \<mapsto> ''https://chat/1'']
     [(0, ''10.0.0.1''), (1000, ''10.0.0.1''), (2000, ''10.0.0.1''), (3000, ''10.0.0.1'')] =
     [201, 201, 201, 201] \<and>
   max_hits linkClicksLimiter = 3 \<and> windowMs linkClicksLimiter = 60000"
  by code_simp

end
